theory Spec2Isabelle
  imports Main "HOL-Library.Product_Lexorder"
begin

section \<open>The Go string primitives that main.go calls\<close>

text \<open>
  Go strings are byte sequences holding UTF-8; they are modelled as \<open>string\<close>
  (a list of 8-bit characters). \<open>generateDescription\<close> uses \<open>strings.Fields\<close>,
  \<open>strings.Contains\<close>, \<open>strings.Split\<close>, \<open>strings.Join\<close>, \<open>fmt.Sprintf\<close> with
  \<open>%s\<close> verbs only (concatenation) and \<open>fmt.Sscanf\<close> with the format \<open>%d\<close>.
\<close>

definition byte :: "char \<Rightarrow> nat" where
  "byte c = of_char c"

text \<open>
  \<open>unicode.IsSpace\<close>, read on the UTF-8 bytes at the head of a string: the result
  is the number of bytes of the white space rune that starts there (0 when none does).
  The white space runes are U+0009..U+000D, U+0020, U+0085, U+00A0, U+1680,
  U+2000..U+200A, U+2028, U+2029, U+202F, U+205F and U+3000. A lead byte of one of
  these encodings is never a continuation byte of another rune, so the byte patterns
  are found exactly where Go's rune decoding finds the runes.
\<close>

definition spaceWidth :: "string \<Rightarrow> nat" where
  "spaceWidth s =
     (case s of
        [] \<Rightarrow> 0
      | c # r \<Rightarrow>
          if (9 \<le> byte c \<and> byte c \<le> 13) \<or> byte c = 32 then 1
          else if byte c = 194 then
            (case r of
               d # _ \<Rightarrow> if byte d = 133 \<or> byte d = 160 then 2 else 0
             | [] \<Rightarrow> 0)
          else if byte c = 225 then
            (if map byte (take 2 r) = [154, 128] then 3 else 0)
          else if byte c = 226 then
            (case map byte (take 2 r) of
               [d, e] \<Rightarrow>
                 if d = 128 \<and> ((128 \<le> e \<and> e \<le> 138) \<or> e = 168 \<or> e = 169 \<or> e = 175) then 3
                 else if d = 129 \<and> e = 159 then 3
                 else 0
             | _ \<Rightarrow> 0)
          else if byte c = 227 then
            (if map byte (take 2 r) = [128, 128] then 3 else 0)
          else 0)"

text \<open>
  \<open>strings.Fields\<close>: the maximal runs of bytes between white space runes, in order;
  no empty field is ever produced. \<open>skip\<close> counts the bytes of a white space rune
  that are still to be dropped, \<open>cur\<close> is the field being collected.
\<close>

fun FieldsFrom :: "nat \<Rightarrow> string \<Rightarrow> string \<Rightarrow> string list" where
  "FieldsFrom skip cur [] = (if cur = [] then [] else [cur])"
| "FieldsFrom skip cur (c # r) =
     (if 0 < skip then FieldsFrom (skip - 1) cur r
      else if 0 < spaceWidth (c # r) then
        (if cur = [] then [] else [cur]) @ FieldsFrom (spaceWidth (c # r) - 1) [] r
      else FieldsFrom 0 (cur @ [c]) r)"

definition Fields :: "string \<Rightarrow> string list" where
  "Fields s = FieldsFrom 0 [] s"

text \<open>\<open>strings.Contains(s, sep)\<close> for a separator of one byte, as every call in main.go has.\<close>

definition Contains :: "string \<Rightarrow> char \<Rightarrow> bool" where
  "Contains s sep = (sep \<in> set s)"

text \<open>
  \<open>strings.Split(s, sep)\<close> for a separator of one byte: the pieces between the
  occurrences of \<open>sep\<close>, one more than there are occurrences (so the empty string
  gives one empty piece).
\<close>

fun Split :: "string \<Rightarrow> char \<Rightarrow> string list" where
  "Split [] sep = [[]]"
| "Split (c # r) sep =
     (if c = sep then [] # Split r sep
      else (case Split r sep of
              p # ps \<Rightarrow> (c # p) # ps
            | [] \<Rightarrow> [[c]]))"

text \<open>\<open>strings.Join(elems, sep)\<close>.\<close>

fun Join :: "string list \<Rightarrow> string \<Rightarrow> string" where
  "Join [] sep = []"
| "Join [x] sep = x"
| "Join (x # y # ys) sep = x @ sep @ Join (y # ys) sep"

subsection \<open>\<open>fmt.Sscanf(s, "%d", new(int))\<close>\<close>

datatype scanError = UnexpectedEOF | ExpectedInteger | ValueOutOfRange

definition isDigit :: "char \<Rightarrow> bool" where
  "isDigit c = (48 \<le> byte c \<and> byte c \<le> 57)"

definition decimal :: "string \<Rightarrow> int" where
  "decimal ds = foldl (\<lambda>acc c. acc * 10 + (int (byte c) - 48)) 0 ds"

text \<open>
  The scanner's \<open>scanInt\<close> for the verb \<open>d\<close> and a 64-bit \<open>int\<close>: fail at the end of
  input, accept one optional sign, require a digit, take every following digit, and
  hand the token to \<open>strconv.ParseInt(tok, 10, 64)\<close>, which fails outside the signed
  64-bit range. Input after the digits is left unread and is no error. (The scanner
  first skips leading white space; the tokens main.go passes come out of
  \<open>strings.Fields\<close> and hold none.)
\<close>

definition scanInt :: "string \<Rightarrow> scanError + int" where
  "scanInt s =
     (if s = [] then Inl UnexpectedEOF
      else
        (let neg = (hd s = CHR ''-'');
             body = (if hd s = CHR ''+'' \<or> hd s = CHR ''-'' then tl s else s);
             ds = takeWhile isDigit body
         in if body = [] then Inl UnexpectedEOF
            else if ds = [] then Inl ExpectedInteger
            else
              (let v = (if neg then - decimal ds else decimal ds)
               in if - (2 ^ 63) \<le> v \<and> v < 2 ^ 63 then Inr v else Inl ValueOutOfRange)))"

text \<open>
  \<open>Sscanf\<close> returns the number of items it parsed and the error. With the one verb
  \<open>%d\<close> that number is 1 on success and 0 on failure; the scanned value itself goes
  to the pointer argument, which main.go allocates with \<open>new(int)\<close> and never reads.
\<close>

definition Sscanf_d :: "string \<Rightarrow> int \<times> scanError option" where
  "Sscanf_d s = (case scanInt s of Inl e \<Rightarrow> (0, Some e) | Inr v \<Rightarrow> (1, None))"

section \<open>generateDescription\<close>

subsection \<open>The clause of each field\<close>

text \<open>
  \<open>generateDescription\<close> (main.go 435-692) computes one clause per field with a
  \<open>switch\<close> on the raw token, then tests three special cases, then joins the clauses.
  Each \<open>switch\<close> is one definition here, its cases in the order of the source; the
  clauses have no effect, so testing the special cases after them or before them gives the
  same text.
\<close>

text \<open>The minutes (main.go 449-479).\<close>

definition minuteDesc :: "string \<Rightarrow> string" where
  "minuteDesc minute =
     (if minute = ''*'' then ''every minute''
      else if minute = ''*/1'' then ''every minute''
      else if minute = ''0'' then ''at the start of each hour''
      else if minute = ''*/5'' then ''every 5 minutes''
      else if minute = ''*/10'' then ''every 10 minutes''
      else if minute = ''*/15'' then ''every 15 minutes''
      else if minute = ''*/30'' then ''every 30 minutes''
      else if Contains minute CHR '','' then ''at minutes '' @ minute
      else if Contains minute CHR ''-'' then ''every minute from '' @ minute
      else if Contains minute CHR ''/'' then
        (let parts = Split minute CHR ''/''
         in if length parts = 2 then ''every '' @ parts ! 1 @ '' minute(s)'' else '''')
      else ''at minute '' @ minute)"

text \<open>The hours (main.go 481-505).\<close>

definition hourDesc :: "string \<Rightarrow> string" where
  "hourDesc hour =
     (if hour = ''*'' then ''every hour''
      else if hour = ''*/1'' then ''every hour''
      else if hour = ''0'' then ''at midnight''
      else if hour = ''12'' then ''at noon''
      else if Contains hour CHR '','' then ''at hours '' @ hour
      else if Contains hour CHR ''-'' then ''every hour from '' @ hour
      else if Contains hour CHR ''/'' then
        (let parts = Split hour CHR ''/''
         in if length parts = 2 then ''every '' @ parts ! 1 @ '' hour(s)'' else '''')
      else ''at '' @ hour @ '':00'')"

text \<open>
  The day of the month (main.go 507-541). The last branch is the ordinal path; its tests
  for 1, 2 and 3 repeat cases that the \<open>switch\<close> has already taken.
\<close>

definition domDesc :: "string \<Rightarrow> string" where
  "domDesc dayOfMonth =
     (if dayOfMonth = ''*'' then ''every day of the month''
      else if dayOfMonth = ''1'' then ''on the 1st of the month''
      else if dayOfMonth = ''2'' then ''on the 2nd of the month''
      else if dayOfMonth = ''3'' then ''on the 3rd of the month''
      else if dayOfMonth = ''L'' then ''on the last day of the month''
      else if Contains dayOfMonth CHR '','' then ''on days '' @ dayOfMonth @ '' of the month''
      else if Contains dayOfMonth CHR ''-'' then ''on days '' @ dayOfMonth @ '' of the month''
      else if Contains dayOfMonth CHR ''/'' then
        (let parts = Split dayOfMonth CHR ''/''
         in if length parts = 2 then ''every '' @ parts ! 1 @ '' day(s) of the month'' else '''')
      else
        (let suffix =
           (if dayOfMonth = ''1'' \<or> dayOfMonth = ''21'' \<or> dayOfMonth = ''31'' then ''st''
            else if dayOfMonth = ''2'' \<or> dayOfMonth = ''22'' then ''nd''
            else if dayOfMonth = ''3'' \<or> dayOfMonth = ''23'' then ''rd''
            else ''th'')
         in ''on the '' @ dayOfMonth @ suffix @ '' of the month''))"

definition monthNames :: "string list" where
  "monthNames = ['''', ''January'', ''February'', ''March'', ''April'', ''May'', ''June'', ''July'',
     ''August'', ''September'', ''October'', ''November'', ''December'']"

text \<open>
  The month (main.go 543-582). The source writes the same test three times, for a member of
  a list and for each bound of a range; it is \<open>monthMember\<close> here. Its \<open>i\<close> is what
  \<open>Sscanf\<close> returns first, the count of parsed items, and it indexes \<open>monthNames\<close>.
\<close>

definition monthMember :: "string \<Rightarrow> string" where
  "monthMember m =
     (case Sscanf_d m of
        (i, err) \<Rightarrow> if err = None \<and> 0 < i \<and> i \<le> 12 then monthNames ! nat i else m)"

definition monthDesc :: "string \<Rightarrow> string" where
  "monthDesc month =
     (if month = ''*'' then ''every month''
      else if Contains month CHR '','' then
        ''in '' @ Join (map monthMember (Split month CHR '','')) '', ''
      else if Contains month CHR ''-'' then
        (let parts = Split month CHR ''-''
         in if length parts = 2
            then ''from '' @ monthMember (parts ! 0) @ '' to '' @ monthMember (parts ! 1)
            else '''')
      else
        (case Sscanf_d month of
           (i, err) \<Rightarrow>
             if err = None \<and> 0 < i \<and> i \<le> 12 then ''in '' @ monthNames ! nat i
             else ''in month '' @ month))"

definition dowNames :: "string list" where
  "dowNames = [''Sunday'', ''Monday'', ''Tuesday'', ''Wednesday'', ''Thursday'', ''Friday'',
     ''Saturday'', ''Sunday'']"

text \<open>
  The day of the week (main.go 584-651). As for the month, \<open>dowMember\<close> is the test the
  source writes for a member of a list and for each bound of a range, with \<open>i\<close> the
  count that \<open>Sscanf\<close> returns.
\<close>

definition dowMember :: "string \<Rightarrow> string" where
  "dowMember d =
     (case Sscanf_d d of
        (i, err) \<Rightarrow>
          if err = None \<and> 0 \<le> i \<and> i \<le> 7
          then (let idx = (if i = 7 then 0 else i) in dowNames ! nat idx)
          else d)"

text \<open>The \<open>default\<close> branch of the day-of-week switch: list, range, anything else.\<close>

definition dowGeneric :: "string \<Rightarrow> string" where
  "dowGeneric dayOfWeek =
     (if Contains dayOfWeek CHR '','' then
        ''on '' @ Join (map dowMember (Split dayOfWeek CHR '','')) '', ''
      else if Contains dayOfWeek CHR ''-'' then
        (let parts = Split dayOfWeek CHR ''-''
         in if length parts = 2
            then ''from '' @ dowMember (parts ! 0) @ '' to '' @ dowMember (parts ! 1)
            else '''')
      else ''on day '' @ dayOfWeek @ '' of the week'')"

definition dowDesc :: "string \<Rightarrow> string" where
  "dowDesc dayOfWeek =
     (if dayOfWeek = ''*'' then ''on every day of the week''
      else if dayOfWeek = ''0'' \<or> dayOfWeek = ''7'' then ''on Sundays''
      else if dayOfWeek = ''1'' then ''on Mondays''
      else if dayOfWeek = ''2'' then ''on Tuesdays''
      else if dayOfWeek = ''3'' then ''on Wednesdays''
      else if dayOfWeek = ''4'' then ''on Thursdays''
      else if dayOfWeek = ''5'' then ''on Fridays''
      else if dayOfWeek = ''6'' then ''on Saturdays''
      else if dayOfWeek = ''1-5'' then ''on weekdays''
      else if dayOfWeek = ''0,6'' \<or> dayOfWeek = ''6,0'' \<or> dayOfWeek = ''6,7'' then ''on weekends''
      else dowGeneric dayOfWeek)"

subsection \<open>The sentence\<close>

text \<open>
  The special cases and the combination of the clauses (main.go 653-691), for the five
  fields taken from \<open>parts\<close>.
\<close>

definition describeFields :: "string \<Rightarrow> string \<Rightarrow> string \<Rightarrow> string \<Rightarrow> string \<Rightarrow> string" where
  "describeFields minute hour dayOfMonth month dayOfWeek =
     (if minute = ''0'' \<and> hour = ''0'' \<and> dayOfMonth = ''*'' \<and> month = ''*'' \<and> dayOfWeek = ''*''
      then ''This cron expression will run once per day at midnight.''
      else if minute = ''0'' \<and> hour = ''0'' \<and> dayOfMonth = ''*'' \<and> month = ''*'' \<and> dayOfWeek = ''0''
      then ''This cron expression will run at midnight on Sundays.''
      else if minute = ''0'' \<and> hour = ''*'' \<and> dayOfMonth = ''*'' \<and> month = ''*'' \<and> dayOfWeek = ''*''
      then ''This cron expression will run at the start of every hour.''
      else
        ''This cron expression will run ''
        @ (if minute = ''*'' \<and> hour = ''*'' then minuteDesc minute @ '' '' @ hourDesc hour
           else if minute = ''*'' then ''every minute '' @ hourDesc hour
           else if hour = ''*'' then minuteDesc minute @ '' of every hour''
           else minuteDesc minute @ '' '' @ hourDesc hour)
        @ (if dayOfMonth = ''*'' then '''' else '' '' @ domDesc dayOfMonth)
        @ (if month = ''*'' then '''' else '' '' @ monthDesc month)
        @ (if dayOfWeek = ''*'' then '''' else '' '' @ dowDesc dayOfWeek)
        @ ''.'')"

text \<open>The whole function: the field count is tested first (main.go 436-439).\<close>

definition generateDescription :: "string \<Rightarrow> string" where
  "generateDescription expression =
     (case Fields expression of
        [minute, hour, dayOfMonth, month, dayOfWeek] \<Rightarrow>
          describeFields minute hour dayOfMonth month dayOfWeek
      | _ \<Rightarrow> ''Invalid cron expression'')"

section \<open>calculateNextExecutions\<close>

text \<open>
  The function calls the cron library for parsing and for the next activation time, the
  clock for the reference instant and \<open>Time.Format\<close> for the text of an instant. They
  are parameters here: \<open>parse\<close> gives \<open>Inl\<close> of the error's message (\<open>err.Error()\<close>)
  or \<open>Inr\<close> of the schedule, \<open>nextOf schedule t\<close> is \<open>schedule.Next(t)\<close>, \<open>now\<close> is
  the value of \<open>time.Now()\<close> and \<open>format\<close> is
  \<open>Format("Mon Jan 2 2006 at 15:04:05")\<close>.
\<close>

text \<open>
  The loop \<open>for i := 0; i < count; i++\<close>: each round appends the text of \<open>next\<close>
  and moves \<open>next\<close> to the following activation.
\<close>

fun executionsLoop :: "('t \<Rightarrow> 't) \<Rightarrow> ('t \<Rightarrow> string) \<Rightarrow> nat \<Rightarrow> 't \<Rightarrow> string list" where
  "executionsLoop step format 0 next = []"
| "executionsLoop step format (Suc n) next = format next # executionsLoop step format n (step next)"

definition calculateNextExecutions ::
  "(string \<Rightarrow> string + 's) \<Rightarrow> ('s \<Rightarrow> 't \<Rightarrow> 't) \<Rightarrow> ('t \<Rightarrow> string) \<Rightarrow> 't \<Rightarrow> string \<Rightarrow> int
     \<Rightarrow> string list" where
  "calculateNextExecutions parse nextOf format now expression count =
     (case parse expression of
        Inl err \<Rightarrow> [''Error parsing cron expression: '' @ err]
      | Inr schedule \<Rightarrow>
          executionsLoop (nextOf schedule) format (nat count) (nextOf schedule now))"

section \<open>convertCronHandler\<close>

record ConvertResponse =
  Description :: string
  NextExecutions :: "string list"

text \<open>
  What the handler writes: \<open>http.Error(w, text, code)\<close> sends a plain-text body (the
  text and a newline) with the status code; \<open>json.NewEncoder(w).Encode(response)\<close>
  sends the \<open>ConvertResponse\<close> as JSON with status 200. The handler builds no other
  answer.
\<close>

datatype response =
    HttpError string nat
  | JsonResponse ConvertResponse

text \<open>
  The request body after \<open>json.NewDecoder(r.Body).Decode(&req)\<close> is \<open>Inl\<close> of the
  decoder's error message or \<open>Inr\<close> of \<open>req.Expression\<close>. The counter
  \<open>invalidCronExpressions\<close> is passed in and returned.
\<close>

definition convertCronHandler ::
  "(string \<Rightarrow> string + 's) \<Rightarrow> ('s \<Rightarrow> 't \<Rightarrow> 't) \<Rightarrow> ('t \<Rightarrow> string) \<Rightarrow> 't
     \<Rightarrow> string + string \<Rightarrow> nat \<Rightarrow> response \<times> nat" where
  "convertCronHandler parse nextOf format now body invalidCronExpressions =
     (case body of
        Inl err \<Rightarrow> (HttpError err 400, invalidCronExpressions)
      | Inr expression \<Rightarrow>
          (case parse expression of
             Inl err \<Rightarrow>
               (HttpError (''Invalid cron expression: '' @ err) 400, invalidCronExpressions + 1)
           | Inr schedule \<Rightarrow>
               (JsonResponse
                  \<lparr>Description = generateDescription expression,
                   NextExecutions = calculateNextExecutions parse nextOf format now expression 5\<rparr>,
                invalidCronExpressions)))"

section \<open>The occurrence calculator of the specification\<close>

text \<open>
  main.go computes activation times with \<open>Schedule.Next\<close> of the cron library
  (github.com/robfig/cron/v3), which is not among the sources. The definitions of this
  section follow sections 3 and 4.3 of the specification instead.
\<close>

text \<open>Modelled from the spec: the base of a \<open>Step\<close> field, "Wildcard-rooted (\<open>*/n\<close>) or
  range-rooted (\<open>lo-hi/n\<close>)"; the library's field representation is missing.\<close>

datatype stepBase = WildcardRoot | RangeRoot nat nat

text \<open>Modelled from the spec: \<open>CronField\<close>, the tagged variant of section 3 (wildcard, one
  integer, a list of integers, an inclusive range, a step with its base and interval); the
  library's field representation is missing.\<close>

datatype CronField =
    Wildcard
  | Single nat
  | List "nat list"
  | Range nat nat
  | Step stepBase nat

text \<open>Modelled from the spec: the five positions of a schedule, in their fixed order.\<close>

datatype fieldPosition = Minute | Hour | DayOfMonth | Month | DayOfWeek

text \<open>Modelled from the spec: the lower domain bound of each field, "minute 0-59, hour 0-23,
  day-of-month 1-31, month 1-12, day-of-week 0-7"; the library's bounds are missing.\<close>

fun domainLo :: "fieldPosition \<Rightarrow> nat" where
  "domainLo Minute = 0"
| "domainLo Hour = 0"
| "domainLo DayOfMonth = 1"
| "domainLo Month = 1"
| "domainLo DayOfWeek = 0"

text \<open>Modelled from the spec: the upper domain bound of each field, from the same sentence.\<close>

fun domainHi :: "fieldPosition \<Rightarrow> nat" where
  "domainHi Minute = 59"
| "domainHi Hour = 23"
| "domainHi DayOfMonth = 31"
| "domainHi Month = 12"
| "domainHi DayOfWeek = 7"

text \<open>Modelled from the spec: \<open>ParsedSchedule\<close>, "exactly five \<open>CronField\<close> values in fixed
  order (minute, hour, dom, month, dow), plus the original raw text"; the library's schedule
  type is missing.\<close>

record ParsedSchedule =
  minuteField :: CronField
  hourField :: CronField
  domField :: CronField
  monthField :: CronField
  dowField :: CronField
  rawText :: string

text \<open>Modelled from the spec: a value lies within the domain bounds of its field.\<close>

definition inDomain :: "fieldPosition \<Rightarrow> nat \<Rightarrow> bool" where
  "inDomain p n = (domainLo p \<le> n \<and> n \<le> domainHi p)"

text \<open>Modelled from the spec: the membership test of section 4.3, "wildcard always matches;
  single/list/range/step use ordinary modular/interval arithmetic against the calendar
  component value"; a step matches "every \<open>interval\<close>-th value starting at \<open>base\<close> within
  the field's domain". The library's matching is missing.\<close>

fun matchesField :: "fieldPosition \<Rightarrow> CronField \<Rightarrow> nat \<Rightarrow> bool" where
  "matchesField p Wildcard v = True"
| "matchesField p (Single n) v = (v = n)"
| "matchesField p (List ns) v = (v \<in> set ns)"
| "matchesField p (Range lo hi) v = (lo \<le> v \<and> v \<le> hi)"
| "matchesField p (Step WildcardRoot interval) v =
     (0 < interval \<and> inDomain p v \<and> (v - domainLo p) mod interval = 0)"
| "matchesField p (Step (RangeRoot lo hi) interval) v =
     (0 < interval \<and> lo \<le> v \<and> v \<le> hi \<and> (v - lo) mod interval = 0)"

text \<open>Modelled from the spec: an instant of the "single, caller-supplied wall-clock calendar"
  (no time zone, no daylight saving), as its calendar components; an \<open>Occurrence\<close> is an
  instant whose seconds are zero. Go's \<open>time.Time\<close> is missing.\<close>

record instant =
  tYear :: int
  tMonth :: nat
  tDay :: nat
  tHour :: nat
  tMinute :: nat
  tSecond :: nat

text \<open>Modelled from the spec: the leap years of the calendar (Gregorian), which the
  specification leaves to "the underlying calendar type".\<close>

definition leapYear :: "int \<Rightarrow> bool" where
  "leapYear y = (y mod 4 = 0 \<and> (y mod 100 \<noteq> 0 \<or> y mod 400 = 0))"

text \<open>Modelled from the spec: the number of days of a month of that calendar.\<close>

definition daysInMonth :: "int \<Rightarrow> nat \<Rightarrow> nat" where
  "daysInMonth y m =
     (if m = 2 then (if leapYear y then 29 else 28)
      else if m = 4 \<or> m = 6 \<or> m = 9 \<or> m = 11 then 30
      else 31)"

text \<open>Modelled from the spec: the day of the week of an instant of that calendar, 0 for
  Sunday to 6 for Saturday, computed from the Julian day number of its date.\<close>

definition weekday :: "instant \<Rightarrow> nat" where
  "weekday t =
     (let a = (14 - int (tMonth t)) div 12;
          y = tYear t + 4800 - a;
          m = int (tMonth t) + 12 * a - 3;
          jdn = int (tDay t) + (153 * m + 2) div 5 + 365 * y + y div 4 - y div 100 + y div 400
                - 32045
      in nat ((jdn + 1) mod 7))"

text \<open>Modelled from the spec: the day selection of section 4.3: "if day-of-month is wildcard
  AND day-of-week is wildcard, any day matches; if exactly one of the two is restricted, only
  that field's match governs; if BOTH are restricted (non-wildcard), the day matches if EITHER
  day-of-month OR day-of-week matches". The library's day matching is missing.\<close>

definition dayMatches :: "ParsedSchedule \<Rightarrow> instant \<Rightarrow> bool" where
  "dayMatches s t =
     (if domField s = Wildcard \<and> dowField s = Wildcard then True
      else if dowField s = Wildcard then matchesField DayOfMonth (domField s) (tDay t)
      else if domField s = Wildcard then matchesField DayOfWeek (dowField s) (weekday t)
      else matchesField DayOfMonth (domField s) (tDay t)
           \<or> matchesField DayOfWeek (dowField s) (weekday t))"

text \<open>Modelled from the spec: the test of a candidate, "whether the candidate's minute, hour,
  and month fields match their corresponding \<open>CronField\<close>", together with the day
  selection.\<close>

definition matchesInstant :: "ParsedSchedule \<Rightarrow> instant \<Rightarrow> bool" where
  "matchesInstant s t =
     (matchesField Minute (minuteField s) (tMinute t)
      \<and> matchesField Hour (hourField s) (tHour t)
      \<and> matchesField Month (monthField s) (tMonth t)
      \<and> dayMatches s t)"

text \<open>Modelled from the spec: the advance of a candidate, "reference + 1 minute, with seconds
  zeroed" and then "advance to the next minute", carried through hour, day, month and year.\<close>

definition nextMinute :: "instant \<Rightarrow> instant" where
  "nextMinute t =
     (if tMinute t < 59 then t\<lparr>tMinute := tMinute t + 1, tSecond := 0\<rparr>
      else if tHour t < 23 then t\<lparr>tHour := tHour t + 1, tMinute := 0, tSecond := 0\<rparr>
      else if tDay t < daysInMonth (tYear t) (tMonth t)
        then t\<lparr>tDay := tDay t + 1, tHour := 0, tMinute := 0, tSecond := 0\<rparr>
      else if tMonth t < 12
        then t\<lparr>tMonth := tMonth t + 1, tDay := 1, tHour := 0, tMinute := 0, tSecond := 0\<rparr>
      else t\<lparr>tYear := tYear t + 1, tMonth := 1, tDay := 1, tHour := 0, tMinute := 0,
             tSecond := 0\<rparr>)"

text \<open>Modelled from the spec: the components of an instant from the year down to the second,
  whose lexicographic order is the chronological order.\<close>

definition instantKey :: "instant \<Rightarrow> int \<times> nat \<times> nat \<times> nat \<times> nat \<times> nat" where
  "instantKey t = (tYear t, tMonth t, tDay t, tHour t, tMinute t, tSecond t)"

text \<open>Modelled from the spec: "strictly after", the chronological order of two instants.\<close>

definition before :: "instant \<Rightarrow> instant \<Rightarrow> bool" where
  "before a b = (instantKey a < instantKey b)"

text \<open>Modelled from the spec: the failure of the calculator, \<open>UnsatisfiableSchedule\<close>, when
  the search ceiling is exceeded.\<close>

datatype calcError = UnsatisfiableSchedule

text \<open>Modelled from the spec: the search for one occurrence from a candidate, "on a
  non-matching candidate, advance to the next minute and retry", under "an explicit search
  ceiling (e.g., a maximum number of minute-steps)": the first argument is the number of
  candidates that may still be tested, \<open>None\<close> is the exceeded ceiling.\<close>

fun searchFrom :: "nat \<Rightarrow> ParsedSchedule \<Rightarrow> instant \<Rightarrow> instant option" where
  "searchFrom 0 s c = None"
| "searchFrom (Suc k) s c =
     (if matchesInstant s c then Some c else searchFrom k s (nextMinute c))"

text \<open>Modelled from the spec: the occurrence calculator of section 4.3, "given a
  \<open>ParsedSchedule\<close> and a reference instant, produce an ordered sequence of the next
  \<open>count\<close> occurrences strictly after the reference instant": the first candidate is the
  minute after the reference, each further search starts at the minute after the occurrence
  found, and an exceeded ceiling fails the whole call. The library's \<open>Schedule.Next\<close> is
  missing.\<close>

fun nextOccurrences ::
  "nat \<Rightarrow> ParsedSchedule \<Rightarrow> instant \<Rightarrow> nat \<Rightarrow> calcError + instant list" where
  "nextOccurrences ceiling s t 0 = Inr []"
| "nextOccurrences ceiling s t (Suc n) =
     (case searchFrom ceiling s (nextMinute t) of
        None \<Rightarrow> Inl UnsatisfiableSchedule
      | Some c \<Rightarrow>
          (case nextOccurrences ceiling s c n of
             Inl e \<Rightarrow> Inl e
           | Inr cs \<Rightarrow> Inr (c # cs)))"

section \<open>Properties of generateDescription and calculateNextExecutions\<close>

lemma generateDescription_five:
  "Fields e = [a, b, c, d, f] \<Longrightarrow> generateDescription e = describeFields a b c d f"
  by (simp add: generateDescription_def)

lemma Split_nonempty: "Split s c \<noteq> []"
  by (induction s) (auto split: list.splits)

lemma Split_two: "Contains s c \<Longrightarrow> 2 \<le> length (Split s c)"
proof (induction s)
  case Nil
  then show ?case by (simp add: Contains_def)
next
  case (Cons a s)
  show ?case
  proof (cases "a = c")
    case True
    then show ?thesis using Split_nonempty[of s c] by (cases "Split s c") auto
  next
    case False
    with Cons.prems have "Contains s c" by (simp add: Contains_def)
    then have "2 \<le> length (Split s c)" by (rule Cons.IH)
    with False show ?thesis by (cases "Split s c") auto
  qed
qed

lemma Join_two_has_comma:
  assumes "2 \<le> length xs"
  shows "CHR '','' \<in> set (Join xs '', '')"
proof -
  from assms obtain x y ys where "xs = x # y # ys"
    by (cases xs; cases "tl xs") auto
  then show ?thesis by simp
qed

text \<open>
  Whatever the token, a successful scan gives the count 1, so a numeric member of a
  month list or range is rendered as \<open>monthNames ! 1\<close> and a numeric member of a
  day-of-week list or range as \<open>dowNames ! 1\<close>.
\<close>

lemma monthMember_numeric: "scanInt m = Inr v \<Longrightarrow> monthMember m = ''January''"
  by (simp add: monthMember_def Sscanf_d_def monthNames_def)

lemma monthMember_other: "scanInt m = Inl e \<Longrightarrow> monthMember m = m"
  by (simp add: monthMember_def Sscanf_d_def)

lemma dowMember_numeric: "scanInt d = Inr v \<Longrightarrow> dowMember d = ''Monday''"
  by (simp add: dowMember_def Sscanf_d_def dowNames_def)

lemma dowMember_other: "scanInt d = Inl e \<Longrightarrow> dowMember d = d"
  by (simp add: dowMember_def Sscanf_d_def)

lemma dowGeneric_not_special:
  "dowGeneric t \<noteq> ''on weekends'' \<and> dowGeneric t \<noteq> ''on weekdays''"
proof (cases "Contains t CHR '',''")
  case True
  then have "2 \<le> length (map dowMember (Split t CHR '',''))"
    using Split_two by simp
  then have c: "CHR '','' \<in> set (Join (map dowMember (Split t CHR '','')) '', '')"
    by (rule Join_two_has_comma)
  have "dowGeneric t = ''on '' @ Join (map dowMember (Split t CHR '','')) '', ''"
    using True by (simp add: dowGeneric_def)
  with c show ?thesis by auto
next
  case False
  then show ?thesis by (auto simp: dowGeneric_def Let_def)
qed

text \<open>
  C1. The month clause. The claim has the month token \<open>6\<close> rendered as "in June"; the
  code indexes the month names with the count \<open>Sscanf\<close> returns, which is 1 for every
  token that scans, so the sentence for \<open>0 0 1 6 *\<close> ends "in January".
\<close>

theorem C1_month_six_is_rendered_January:
  "generateDescription ''0 0 1 6 *'' =
     ''This cron expression will run at the start of each hour at midnight on the 1st of the month in January.''"
  by code_simp

text \<open>
  C2. The day-of-week clause of a list. The claim has the members of \<open>0,3\<close> rendered as
  Sunday and Wednesday; the code indexes the weekday names with the count \<open>Sscanf\<close>
  returns, so both members are rendered as Monday.
\<close>

theorem C2_dow_list_is_rendered_Monday:
  "generateDescription ''0 0 * * 0,3'' =
     ''This cron expression will run at the start of each hour at midnight on Monday, Monday.''"
  by code_simp

text \<open>
  C5. The three whole-expression overrides: each of the three inputs gives exactly its
  fixed sentence, and that sentence is not the one the composition of the per-field
  clauses would have given for the same fields.
\<close>

theorem C5_whole_expression_overrides:
  "generateDescription ''0 0 * * *'' = ''This cron expression will run once per day at midnight.''
   \<and> generateDescription ''0 0 * * 0'' = ''This cron expression will run at midnight on Sundays.''
   \<and> generateDescription ''0 * * * *'' = ''This cron expression will run at the start of every hour.''
   \<and> generateDescription ''0 0 * * *''
       \<noteq> ''This cron expression will run '' @ minuteDesc ''0'' @ '' '' @ hourDesc ''0'' @ ''.''
   \<and> generateDescription ''0 0 * * 0''
       \<noteq> ''This cron expression will run '' @ minuteDesc ''0'' @ '' '' @ hourDesc ''0''
           @ '' '' @ dowDesc ''0'' @ ''.''
   \<and> generateDescription ''0 * * * *''
       \<noteq> ''This cron expression will run '' @ minuteDesc ''0'' @ '' of every hour'' @ ''.''"
  by code_simp

text \<open>
  C6. The composed sentence. For an expression of five fields that matches none of the
  three overrides, the description is the fixed opening, the minute and hour clauses
  combined by the wildcard test, then the day-of-month, month and day-of-week clauses,
  each added (after a space) exactly when its field is not \<open>*\<close>, then a period.
\<close>

theorem C6_sentence_composition:
  assumes "Fields expression = [minute, hour, dayOfMonth, month, dayOfWeek]"
    and "\<not> (minute = ''0'' \<and> hour = ''0'' \<and> dayOfMonth = ''*'' \<and> month = ''*'' \<and> dayOfWeek = ''*'')"
    and "\<not> (minute = ''0'' \<and> hour = ''0'' \<and> dayOfMonth = ''*'' \<and> month = ''*'' \<and> dayOfWeek = ''0'')"
    and "\<not> (minute = ''0'' \<and> hour = ''*'' \<and> dayOfMonth = ''*'' \<and> month = ''*'' \<and> dayOfWeek = ''*'')"
  shows "generateDescription expression =
     ''This cron expression will run ''
     @ (if minute = ''*'' \<and> hour = ''*'' then minuteDesc minute @ '' '' @ hourDesc hour
        else if minute = ''*'' then ''every minute '' @ hourDesc hour
        else if hour = ''*'' then minuteDesc minute @ '' of every hour''
        else minuteDesc minute @ '' '' @ hourDesc hour)
     @ (if dayOfMonth \<noteq> ''*'' then '' '' @ domDesc dayOfMonth else '''')
     @ (if month \<noteq> ''*'' then '' '' @ monthDesc month else '''')
     @ (if dayOfWeek \<noteq> ''*'' then '' '' @ dowDesc dayOfWeek else '''')
     @ ''.''"
proof -
  have n1: "(minute = ''0'' \<and> hour = ''0'' \<and> dayOfMonth = ''*'' \<and> month = ''*'' \<and> dayOfWeek = ''*'') = False"
    using assms(2) by blast
  have n2: "(minute = ''0'' \<and> hour = ''0'' \<and> dayOfMonth = ''*'' \<and> month = ''*'' \<and> dayOfWeek = ''0'') = False"
    using assms(3) by blast
  have n3: "(minute = ''0'' \<and> hour = ''*'' \<and> dayOfMonth = ''*'' \<and> month = ''*'' \<and> dayOfWeek = ''*'') = False"
    using assms(4) by blast
  have flip: "\<And>(p::bool) (x::string). (if \<not> p then x else []) = (if p then [] else x)"
    by simp
  have "generateDescription expression = describeFields minute hour dayOfMonth month dayOfWeek"
    using assms(1) by (rule generateDescription_five)
  also have "\<dots> = ''This cron expression will run ''
     @ (if minute = ''*'' \<and> hour = ''*'' then minuteDesc minute @ '' '' @ hourDesc hour
        else if minute = ''*'' then ''every minute '' @ hourDesc hour
        else if hour = ''*'' then minuteDesc minute @ '' of every hour''
        else minuteDesc minute @ '' '' @ hourDesc hour)
     @ (if dayOfMonth \<noteq> ''*'' then '' '' @ domDesc dayOfMonth else '''')
     @ (if month \<noteq> ''*'' then '' '' @ monthDesc month else '''')
     @ (if dayOfWeek \<noteq> ''*'' then '' '' @ dowDesc dayOfWeek else '''')
     @ ''.''"
    unfolding describeFields_def n1 n2 n3 if_False flip ..
  finally show ?thesis .
qed

theorem C6_sentence_composition_witness:
  "Fields ''*/15 9 1 * 1-5'' = [''*/15'', ''9'', ''1'', ''*'', ''1-5'']
   \<and> generateDescription ''*/15 9 1 * 1-5'' =
       ''This cron expression will run every 15 minutes at 9:00 on the 1st of the month on weekdays.''
   \<and> Fields ''* * * * *'' = [''*'', ''*'', ''*'', ''*'', ''*'']
   \<and> generateDescription ''* * * * *'' = ''This cron expression will run every minute every hour.''
   \<and> Fields ''* 12 * * *'' = [''*'', ''12'', ''*'', ''*'', ''*'']
   \<and> generateDescription ''* 12 * * *'' = ''This cron expression will run every minute at noon.''
   \<and> Fields ''30 * * * *'' = [''30'', ''*'', ''*'', ''*'', ''*'']
   \<and> generateDescription ''30 * * * *'' = ''This cron expression will run at minute 30 of every hour.''"
proof -
  have f1: "Fields ''*/15 9 1 * 1-5'' = [''*/15'', ''9'', ''1'', ''*'', ''1-5'']" by code_simp
  have f2: "Fields ''* * * * *'' = [''*'', ''*'', ''*'', ''*'', ''*'']" by code_simp
  have f3: "Fields ''* 12 * * *'' = [''*'', ''12'', ''*'', ''*'', ''*'']" by code_simp
  have f4: "Fields ''30 * * * *'' = [''30'', ''*'', ''*'', ''*'', ''*'']" by code_simp
  have g1: "generateDescription ''*/15 9 1 * 1-5'' =
       ''This cron expression will run every 15 minutes at 9:00 on the 1st of the month on weekdays.''"
    using C6_sentence_composition[OF f1]
    by (simp add: minuteDesc_def hourDesc_def domDesc_def dowDesc_def Contains_def)
  have g2: "generateDescription ''* * * * *'' = ''This cron expression will run every minute every hour.''"
    using C6_sentence_composition[OF f2] by (simp add: minuteDesc_def hourDesc_def)
  have g3: "generateDescription ''* 12 * * *'' = ''This cron expression will run every minute at noon.''"
    using C6_sentence_composition[OF f3] by (simp add: hourDesc_def)
  have g4: "generateDescription ''30 * * * *'' = ''This cron expression will run at minute 30 of every hour.''"
    using C6_sentence_composition[OF f4] by (simp add: minuteDesc_def Contains_def)
  from f1 f2 f3 f4 g1 g2 g3 g4 show ?thesis by blast
qed

text \<open>
  C7. The ordinal suffix of the day-of-month clause. A token that is neither \<open>*\<close> nor
  \<open>L\<close> and holds no comma, hyphen or slash (every bare integer is one) is rendered "on
  the", the token, its suffix, "of the month", where the suffix is "st" exactly for 1,
  21 and 31, "nd" exactly for 2 and 22, "rd" exactly for 3 and 23 and "th" otherwise;
  so 11, 12 and 13 get "th".
\<close>

theorem C7_ordinal_suffix:
  assumes "dayOfMonth \<noteq> ''*''" and "dayOfMonth \<noteq> ''L''"
    and "\<not> Contains dayOfMonth CHR '',''" and "\<not> Contains dayOfMonth CHR ''-''"
    and "\<not> Contains dayOfMonth CHR ''/''"
  shows "domDesc dayOfMonth =
     ''on the '' @ dayOfMonth
     @ (if dayOfMonth = ''1'' \<or> dayOfMonth = ''21'' \<or> dayOfMonth = ''31'' then ''st''
        else if dayOfMonth = ''2'' \<or> dayOfMonth = ''22'' then ''nd''
        else if dayOfMonth = ''3'' \<or> dayOfMonth = ''23'' then ''rd''
        else ''th'')
     @ '' of the month''"
  using assms by (auto simp: domDesc_def)

theorem C7_ordinal_suffix_witness:
  "domDesc ''11'' = ''on the 11th of the month''
   \<and> domDesc ''12'' = ''on the 12th of the month''
   \<and> domDesc ''13'' = ''on the 13th of the month''
   \<and> domDesc ''21'' = ''on the 21st of the month''
   \<and> domDesc ''22'' = ''on the 22nd of the month''
   \<and> domDesc ''23'' = ''on the 23rd of the month''
   \<and> domDesc ''31'' = ''on the 31st of the month''
   \<and> domDesc ''4'' = ''on the 4th of the month''"
  using C7_ordinal_suffix[of "''11''"] C7_ordinal_suffix[of "''12''"]
    C7_ordinal_suffix[of "''13''"] C7_ordinal_suffix[of "''21''"]
    C7_ordinal_suffix[of "''22''"] C7_ordinal_suffix[of "''23''"]
    C7_ordinal_suffix[of "''31''"] C7_ordinal_suffix[of "''4''"]
  by (simp add: Contains_def)

text \<open>
  C8. The special day-of-week phrases match the raw token literally: "on weekdays" is
  the clause of the token \<open>1-5\<close> and of no other token, "on weekends" is the clause of
  the tokens \<open>0,6\<close>, \<open>6,0\<close> and \<open>6,7\<close> and of no other token. The token \<open>0,7\<close> is not
  among them: it takes the generic path, as a list.
\<close>

theorem C8_weekday_weekend_literals:
  "(dowDesc t = ''on weekdays'') = (t = ''1-5'')
   \<and> (dowDesc t = ''on weekends'') = (t = ''0,6'' \<or> t = ''6,0'' \<or> t = ''6,7'')
   \<and> dowDesc ''0,7'' \<noteq> ''on weekends''
   \<and> dowDesc ''0,7'' = dowGeneric ''0,7''
   \<and> dowGeneric ''0,7'' = ''on '' @ Join (map dowMember [''0'', ''7'']) '', ''"
proof -
  have a: "(dowDesc t = ''on weekdays'') = (t = ''1-5'')"
    using dowGeneric_not_special[of t] by (auto simp: dowDesc_def)
  have b: "(dowDesc t = ''on weekends'') = (t = ''0,6'' \<or> t = ''6,0'' \<or> t = ''6,7'')"
    using dowGeneric_not_special[of t] by (auto simp: dowDesc_def)
  have c: "dowDesc ''0,7'' = dowGeneric ''0,7''"
    by (simp add: dowDesc_def)
  have d: "dowDesc ''0,7'' \<noteq> ''on weekends''"
    using dowGeneric_not_special[of "''0,7''"] c by simp
  have e: "dowGeneric ''0,7'' = ''on '' @ Join (map dowMember [''0'', ''7'']) '', ''"
    by (simp add: dowGeneric_def Contains_def)
  from a b c d e show ?thesis by blast
qed

text \<open>
  C10. Neither function signals a failure. When the expression does not parse,
  \<open>calculateNextExecutions\<close> returns the list of one entry, the text "Error parsing cron
  expression: " followed by the parser's message; when the input does not split into
  exactly five fields, \<open>generateDescription\<close> returns "Invalid cron expression".
\<close>

theorem C10_failures_are_returned_as_text:
  "(parse expression = Inl err \<longrightarrow>
      calculateNextExecutions parse nextOf format now expression count
        = [''Error parsing cron expression: '' @ err])
   \<and> (length (Fields expression) \<noteq> 5 \<longrightarrow>
      generateDescription expression = ''Invalid cron expression'')"
proof (intro conjI impI)
  assume "parse expression = Inl err"
  then show "calculateNextExecutions parse nextOf format now expression count
        = [''Error parsing cron expression: '' @ err]"
    by (simp add: calculateNextExecutions_def)
next
  assume n: "length (Fields expression) \<noteq> 5"
  show "generateDescription expression = ''Invalid cron expression''"
  proof (cases "Fields expression")
    case Nil
    then show ?thesis by (simp add: generateDescription_def)
  next
    case (Cons a as)
    with n show ?thesis
      by (auto simp: generateDescription_def split: list.splits)
  qed
qed

theorem C10_failures_are_returned_as_text_witness:
  "calculateNextExecutions (\<lambda>e. Inl ''expected exactly 5 fields'') (\<lambda>(s::unit) (t::nat). t + 60)
      (\<lambda>t. ''t'') 0 ''* * *'' 5
     = [''Error parsing cron expression: expected exactly 5 fields'']
   \<and> length (Fields ''* * *'') = 3
   \<and> generateDescription ''* * *'' = ''Invalid cron expression''"
proof -
  have l: "length (Fields ''* * *'') = 3" by code_simp
  from C10_failures_are_returned_as_text[of "\<lambda>e. Inl ''expected exactly 5 fields''" "''* * *''"
      "''expected exactly 5 fields''" "\<lambda>(s::unit) (t::nat). t + 60" "\<lambda>t. ''t''" 0 5] l
  show ?thesis by simp
qed

text \<open>
  The loop never looks at what \<open>schedule.Next\<close> returns: when the call gives the same
  instant again, every round appends the text of that instant.
\<close>

lemma executionsLoop_fixed:
  "step z = z \<Longrightarrow> executionsLoop step format n z = replicate n (format z)"
  by (induction n) simp_all

text \<open>
  C4. The entries of \<open>calculateNextExecutions\<close> for a schedule without a later
  activation. The claim has the occurrences strictly increasing and after the reference.
  For a schedule that parses and for which \<open>schedule.Next\<close> answers every instant with
  one and the same instant \<open>zero\<close> (what the cron library does with its zero time when it
  finds no activation, as for \<open>0 0 30 2 *\<close>), the function has no failure path: it returns
  \<open>count\<close> entries that are all the text of \<open>zero\<close>, so from two entries on they do not
  increase.
\<close>

theorem C4_no_activation_repeats_one_entry:
  assumes "parse expression = Inr schedule" and "\<forall>t. nextOf schedule t = zero"
  shows "calculateNextExecutions parse nextOf format now expression count
     = replicate (nat count) (format zero)"
proof -
  from assms(2) have z: "nextOf schedule zero = zero" and n: "nextOf schedule now = zero"
    by simp_all
  have "executionsLoop (nextOf schedule) format (nat count) zero
      = replicate (nat count) (format zero)"
    using z by (rule executionsLoop_fixed)
  with assms(1) n show ?thesis by (simp add: calculateNextExecutions_def)
qed

text \<open>
  The expression \<open>0 0 30 2 *\<close> with five entries asked for, as \<open>convertCronHandler\<close>
  asks: instants are counted in seconds, the zero time is 0, and all five entries are the
  text of the zero time.
\<close>

theorem C4_no_activation_repeats_one_entry_witness:
  "calculateNextExecutions (\<lambda>e. Inr ()) (\<lambda>(s::unit) (t::int). 0)
      (\<lambda>t. if t = 0 then ''Mon Jan 1 0001 at 00:00:00'' else ''later'')
      1793491200 ''0 0 30 2 *'' 5
     = [''Mon Jan 1 0001 at 00:00:00'', ''Mon Jan 1 0001 at 00:00:00'',
        ''Mon Jan 1 0001 at 00:00:00'', ''Mon Jan 1 0001 at 00:00:00'',
        ''Mon Jan 1 0001 at 00:00:00'']"
  using C4_no_activation_repeats_one_entry[of "\<lambda>e. Inr ()" "''0 0 30 2 *''" "()"
      "\<lambda>(s::unit) (t::int). 0" 0
      "\<lambda>t. if t = 0 then ''Mon Jan 1 0001 at 00:00:00'' else ''later''" 1793491200 5]
  by (simp add: eval_nat_numeral)

section \<open>Properties of the request handler\<close>

text \<open>
  C9. The claim has the caller of a rejected expression receive an error object with a
  reason code, a field index and the raw token. The handler has no such object: for every
  parser and every expression it rejects, the answer is the plain text "Invalid cron
  expression: " followed by the parser's message, with status 400, and the counter of
  invalid expressions goes up by one; no description and no execution times are produced.
\<close>

theorem C9_rejected_expression_gets_plain_text:
  assumes "parse expression = Inl err"
  shows "convertCronHandler parse nextOf format now (Inr expression) n
     = (HttpError (''Invalid cron expression: '' @ err) 400, n + 1)"
  using assms by (simp add: convertCronHandler_def)

theorem C9_rejected_expression_gets_plain_text_witness:
  "convertCronHandler
      (\<lambda>e. if e = ''60 * * * *'' then Inl ''end of range (60) above maximum (59): 60'' else Inr ())
      (\<lambda>(s::unit) (t::nat). t + 60) (\<lambda>t. ''t'') 0 (Inr ''60 * * * *'') 0
     = (HttpError ''Invalid cron expression: end of range (60) above maximum (59): 60'' 400, 1)"
  using C9_rejected_expression_gets_plain_text[of
      "\<lambda>e. if e = ''60 * * * *'' then Inl ''end of range (60) above maximum (59): 60'' else Inr ()"
      "''60 * * * *''" "''end of range (60) above maximum (59): 60''"
      "\<lambda>(s::unit) (t::nat). t + 60" "\<lambda>t. ''t''" 0 0]
  by simp

text \<open>
  The claim fails at the input \<open>60 * * * *\<close>: whatever parser rejects it, the handler
  does not answer with an object.
\<close>

theorem C9_no_error_object_counterexample:
  "\<not> (\<exists>(parse :: string \<Rightarrow> string + unit) (nextOf :: unit \<Rightarrow> nat \<Rightarrow> nat) format now n.
        (\<exists>m. parse ''60 * * * *'' = Inl m)
        \<and> (\<exists>c. fst (convertCronHandler parse nextOf format now (Inr ''60 * * * *'') n)
               = JsonResponse c))"
  by (auto simp: convertCronHandler_def)

section \<open>Properties of the occurrence calculator of the specification\<close>

lemma nextMinute_after: "before t (nextMinute t)"
  by (simp add: before_def instantKey_def nextMinute_def less_prod_def)

lemma nextMinute_second: "tSecond (nextMinute t) = 0"
  by (simp add: nextMinute_def)

lemma before_trans: "before a b \<Longrightarrow> before b c \<Longrightarrow> before a c"
  unfolding before_def by (rule less_trans)

text \<open>What a successful search returns: the candidate or a later instant, which matches.\<close>

lemma searchFrom_found:
  "searchFrom k s c = Some c' \<Longrightarrow>
     (c' = c \<or> before c c') \<and> matchesInstant s c' \<and> (tSecond c = 0 \<longrightarrow> tSecond c' = 0)"
proof (induction k arbitrary: c)
  case 0
  then show ?case by simp
next
  case (Suc k)
  show ?case
  proof (cases "matchesInstant s c")
    case True
    with Suc.prems show ?thesis by simp
  next
    case False
    with Suc.prems have "searchFrom k s (nextMinute c) = Some c'" by simp
    from Suc.IH[OF this] nextMinute_after[of c] nextMinute_second[of c]
    show ?thesis by (auto intro: before_trans)
  qed
qed

lemma nextOccurrences_props:
  "nextOccurrences ceiling s t n = Inr occs \<Longrightarrow>
     length occs = n
     \<and> list_all (\<lambda>c. before t c \<and> tSecond c = 0 \<and> matchesInstant s c) occs
     \<and> sorted_wrt before occs"
proof (induction n arbitrary: t occs)
  case 0
  then show ?case by simp
next
  case (Suc n)
  from Suc.prems obtain c cs where
    f: "searchFrom ceiling s (nextMinute t) = Some c"
    and r: "nextOccurrences ceiling s c n = Inr cs"
    and o: "occs = c # cs"
    by (auto split: option.splits sum.splits)
  from searchFrom_found[OF f] nextMinute_after[of t] nextMinute_second[of t]
  have c: "before t c" "tSecond c = 0" "matchesInstant s c"
    by (auto intro: before_trans)
  from Suc.IH[OF r] have ih: "length cs = n"
    "list_all (\<lambda>d. before c d \<and> tSecond d = 0 \<and> matchesInstant s d) cs"
    "sorted_wrt before cs" by simp_all
  from ih(2) c(1) have "list_all (\<lambda>d. before t d \<and> tSecond d = 0 \<and> matchesInstant s d) cs"
    by (auto simp: list_all_iff intro: before_trans)
  moreover from ih(2) have "\<forall>d\<in>set cs. before c d" by (simp add: list_all_iff)
  ultimately show ?case using o c ih by simp
qed

text \<open>
  C3. The day rule of the calculator. Every occurrence the calculator returns falls on a
  day that matches the day-of-month field or the day-of-week field when both are restricted
  (either one is enough), the day-of-month field when only it is restricted, and the
  day-of-week field when only it is restricted.
\<close>

theorem C3_day_of_month_or_day_of_week:
  assumes "nextOccurrences ceiling s ref count = Inr occs" and "t \<in> set occs"
  shows "(domField s \<noteq> Wildcard \<and> dowField s \<noteq> Wildcard \<longrightarrow>
            matchesField DayOfMonth (domField s) (tDay t)
            \<or> matchesField DayOfWeek (dowField s) (weekday t))
       \<and> (domField s \<noteq> Wildcard \<and> dowField s = Wildcard \<longrightarrow>
            matchesField DayOfMonth (domField s) (tDay t))
       \<and> (domField s = Wildcard \<and> dowField s \<noteq> Wildcard \<longrightarrow>
            matchesField DayOfWeek (dowField s) (weekday t))"
proof -
  from nextOccurrences_props[OF assms(1)] assms(2) have "matchesInstant s t"
    by (simp add: list_all_iff)
  then have "dayMatches s t" by (simp add: matchesInstant_def)
  then show ?thesis by (auto simp: dayMatches_def split: if_splits)
qed

text \<open>
  The schedule \<open>0 0 13 * 5\<close> from Thursday 5 November 2026, 23:58:30: the first occurrence
  is Friday 6 November at 00:00:00, a day that matches the day-of-week field and not the
  day-of-month field.
\<close>

theorem C3_day_of_month_or_day_of_week_witness:
  "nextOccurrences 10
      \<lparr>minuteField = Single 0, hourField = Single 0, domField = Single 13,
       monthField = Wildcard, dowField = Single 5, rawText = ''0 0 13 * 5''\<rparr>
      \<lparr>tYear = 2026, tMonth = 11, tDay = 5, tHour = 23, tMinute = 58, tSecond = 30\<rparr> 1
     = Inr [\<lparr>tYear = 2026, tMonth = 11, tDay = 6, tHour = 0, tMinute = 0, tSecond = 0\<rparr>]
   \<and> (matchesField DayOfMonth (Single 13) 6
       \<or> matchesField DayOfWeek (Single 5)
            (weekday \<lparr>tYear = 2026, tMonth = 11, tDay = 6, tHour = 0, tMinute = 0, tSecond = 0\<rparr>))
   \<and> \<not> matchesField DayOfMonth (Single 13) 6
   \<and> weekday \<lparr>tYear = 2026, tMonth = 11, tDay = 6, tHour = 0, tMinute = 0, tSecond = 0\<rparr> = 5"
proof -
  have e: "nextOccurrences 10
      \<lparr>minuteField = Single 0, hourField = Single 0, domField = Single 13,
       monthField = Wildcard, dowField = Single 5, rawText = ''0 0 13 * 5''\<rparr>
      \<lparr>tYear = 2026, tMonth = 11, tDay = 5, tHour = 23, tMinute = 58, tSecond = 30\<rparr> 1
     = Inr [\<lparr>tYear = 2026, tMonth = 11, tDay = 6, tHour = 0, tMinute = 0, tSecond = 0\<rparr>]"
    by code_simp
  have w: "weekday \<lparr>tYear = 2026, tMonth = 11, tDay = 6, tHour = 0, tMinute = 0, tSecond = 0\<rparr> = 5"
    by code_simp
  from C3_day_of_month_or_day_of_week[OF e,
      of "\<lparr>tYear = 2026, tMonth = 11, tDay = 6, tHour = 0, tMinute = 0, tSecond = 0\<rparr>"]
  have "matchesField DayOfMonth (Single 13) 6
       \<or> matchesField DayOfWeek (Single 5)
            (weekday \<lparr>tYear = 2026, tMonth = 11, tDay = 6, tHour = 0, tMinute = 0, tSecond = 0\<rparr>)"
    by simp
  with e w show ?thesis by simp
qed

section \<open>Further properties of the code\<close>

lemma executionsLoop_length: "length (executionsLoop step format n next) = n"
  by (induction n arbitrary: "next") simp_all

text \<open>
  X1. When the expression parses, \<open>calculateNextExecutions\<close> returns one entry per round
  of its loop: \<open>count\<close> entries, none when \<open>count\<close> is not positive.
\<close>

theorem X1_one_entry_per_round:
  assumes "parse expression = Inr schedule"
  shows "length (calculateNextExecutions parse nextOf format now expression count) = nat count"
  using assms by (simp add: calculateNextExecutions_def executionsLoop_length)

theorem X1_one_entry_per_round_witness:
  "calculateNextExecutions (\<lambda>e. Inr ()) (\<lambda>(s::unit) (t::nat). t + 60)
      (\<lambda>t. if t = 60 then ''a'' else ''b'') 0 ''* * * * *'' 2 = [''a'', ''b'']
   \<and> length (calculateNextExecutions (\<lambda>e. Inr ()) (\<lambda>(s::unit) (t::nat). t + 60)
      (\<lambda>t. if t = 60 then ''a'' else ''b'') 0 ''* * * * *'' 2) = 2"
proof -
  have two: "(2::nat) = Suc (Suc 0)" by simp
  have v: "calculateNextExecutions (\<lambda>e. Inr ()) (\<lambda>(s::unit) (t::nat). t + 60)
      (\<lambda>t. if t = 60 then ''a'' else ''b'') 0 ''* * * * *'' 2 = [''a'', ''b'']"
    by (simp add: calculateNextExecutions_def two)
  from X1_one_entry_per_round[of "\<lambda>e. Inr ()" "''* * * * *''" "()"
      "\<lambda>(s::unit) (t::nat). t + 60" "\<lambda>t. if t = 60 then ''a'' else ''b''" 0 2] v
  show ?thesis by simp
qed

text \<open>
  X2. The description of \<open>*/15 * * * *\<close> holds the words "every 15 minutes".
\<close>

theorem X2_every_15_minutes:
  "generateDescription ''*/15 * * * *''
     = ''This cron expression will run every 15 minutes of every hour.''"
  by code_simp

text \<open>
  X3. For an expression the parser accepts, the handler answers with the JSON response that
  holds the description and five execution times, and leaves the counter of invalid
  expressions as it was.
\<close>

theorem X3_accepted_expression_gets_json:
  assumes "parse expression = Inr schedule"
  shows "convertCronHandler parse nextOf format now (Inr expression) n
     = (JsonResponse
          \<lparr>Description = generateDescription expression,
           NextExecutions = calculateNextExecutions parse nextOf format now expression 5\<rparr>, n)
     \<and> length (calculateNextExecutions parse nextOf format now expression 5) = 5"
  using assms
  by (simp add: convertCronHandler_def calculateNextExecutions_def executionsLoop_length)

theorem X3_accepted_expression_gets_json_witness:
  "fst (convertCronHandler (\<lambda>e. Inr ()) (\<lambda>(s::unit) (t::nat). t + 60) (\<lambda>t. ''t'') 0
      (Inr ''0 0 * * *'') 7)
     = JsonResponse
        \<lparr>Description = ''This cron expression will run once per day at midnight.'',
         NextExecutions = [''t'', ''t'', ''t'', ''t'', ''t'']\<rparr>
   \<and> snd (convertCronHandler (\<lambda>e. Inr ()) (\<lambda>(s::unit) (t::nat). t + 60) (\<lambda>t. ''t'') 0
      (Inr ''0 0 * * *'') 7) = 7"
proof -
  have d: "generateDescription ''0 0 * * *''
      = ''This cron expression will run once per day at midnight.''"
    by code_simp
  have c: "calculateNextExecutions (\<lambda>e. Inr ()) (\<lambda>(s::unit) (t::nat). t + 60) (\<lambda>t. ''t'') 0
      ''0 0 * * *'' 5 = [''t'', ''t'', ''t'', ''t'', ''t'']"
    by (simp add: calculateNextExecutions_def eval_nat_numeral)
  from X3_accepted_expression_gets_json[of "\<lambda>e. Inr ()" "''0 0 * * *''" "()"
      "\<lambda>(s::unit) (t::nat). t + 60" "\<lambda>t. ''t''" 0 7] d c
  show ?thesis by simp
qed

end
